theory Spec2Isabelle
  imports Complex_Main "HOL-Library.Word" "HOL-Library.Multiset"
    "HOL-Library.Char_ord" "HOL-Library.List_Lexorder"
begin

section \<open>Data model of the scraper\<close>

text \<open>
  The embedding follows \<^verbatim>\<open>scraper/scraper.go\<close>. A Go \<^verbatim>\<open>error\<close> is modelled by its
  message. Series references (\<^verbatim>\<open>storage.SeriesRef\<close>, \<^verbatim>\<open>chunks.HeadSeriesRef\<close>, both
  \<^verbatim>\<open>uint64\<close>) and millisecond timestamps (\<^verbatim>\<open>int64\<close>) are 64-bit words; the code
  only copies and compares them.
\<close>

type_synonym error = string
type_synonym byte = "8 word"
type_synonym uint64 = "64 word"
type_synonym int64 = "64 word"

text \<open>
  A \<^verbatim>\<open>float64\<close> sample value. The code copies the value and compares it with
  \<^verbatim>\<open>0.0\<close>, nothing else, so a finite value is represented by the real number it
  denotes (both zeros by \<open>0\<close>); the infinities and NaN are kept apart because the
  comparison treats them differently.
\<close>

datatype float64 = Finite real | PosInf | NegInf | NaN

text \<open>Go's \<^verbatim>\<open>a > b\<close> on \<^verbatim>\<open>float64\<close>: false whenever an operand is NaN.\<close>

fun float64_gt :: "float64 \<Rightarrow> float64 \<Rightarrow> bool" where
  "float64_gt NaN b = False"
| "float64_gt a NaN = False"
| "float64_gt (Finite a) (Finite b) = (b < a)"
| "float64_gt (Finite a) NegInf = True"
| "float64_gt (Finite a) PosInf = False"
| "float64_gt PosInf b = (b \<noteq> PosInf)"
| "float64_gt NegInf b = False"

text \<open>\<^verbatim>\<open>labels.Label\<close> and \<^verbatim>\<open>labels.Labels\<close>.\<close>

record Label =
  Name :: string
  Value :: string

type_synonym Labels = "Label list"

text \<open>\<^verbatim>\<open>export.MetricMetadata\<close>; the metric type is a Go string type.\<close>

record MetricMetadata =
  Metric :: string
  Type :: string
  Help :: string

text \<open>\<^verbatim>\<open>record.RefSample\<close>.\<close>

record RefSample =
  Ref :: uint64
  T :: int64
  V :: float64

text \<open>
  \<^verbatim>\<open>config.Config\<close>. \<open>FilterRegex\<close> is the compiled pattern, represented by its
  \<^verbatim>\<open>MatchString\<close>; \<^verbatim>\<open>LoadFromEnv\<close> returns a configuration without error only
  when the pattern compiled.
\<close>

record Config =
  ProjectID :: string
  Location :: string
  Cluster :: string
  CADVISORHost :: string
  ScrapeInterval :: int
  FilterPattern :: string
  FilterRegex :: "string \<Rightarrow> bool"

text \<open>What the \<^verbatim>\<open>slog\<close> logger has been asked to write: level, message, one attribute.\<close>

datatype Level = Info | Warn | Error

datatype LogRecord = Log Level string string string

text \<open>
  \<^verbatim>\<open>Scraper\<close>. The exporter is represented by the arguments of the calls of its
  \<^verbatim>\<open>Export\<close> so far (the batch and the metadata index behind the lookup closure),
  the logger by the records it was given. The HTTP client is part of the environment
  (see \<open>scrapeAndExport\<close>).
\<close>

record Scraper =
  Cfg :: Config
  exporter :: "(RefSample list \<times> (string \<rightharpoonup> MetricMetadata)) list"
  cAdvisorURL :: string
  logger :: "LogRecord list"
  labelsByRef :: "uint64 \<rightharpoonup> Labels"

section \<open>The Prometheus library, as the scraper uses it\<close>

text \<open>
  One entry of the exposition format as \<^verbatim>\<open>textparse.Parser\<close> reports it: the entry
  kind returned by \<^verbatim>\<open>Next\<close> together with what the accessors \<^verbatim>\<open>Type\<close>,
  \<^verbatim>\<open>Help\<close>, \<^verbatim>\<open>Series\<close> and \<^verbatim>\<open>Metric\<close> return for it. A series entry carries
  its label pairs in the order of the payload (the metric name among them), its
  optional explicit timestamp and its value.
\<close>

datatype Entry =
    EntryInvalid
  | EntryType string string
  | EntryHelp string string
  | EntrySeries "Label list" "int64 option" float64
  | EntryComment
  | EntryUnit
  | EntryHistogram

text \<open>
  A parser is the finite sequence of results \<^verbatim>\<open>(et, err)\<close> that successive calls of
  \<^verbatim>\<open>Next\<close> return on a payload; after the last one \<^verbatim>\<open>Next\<close> returns
  \<^verbatim>\<open>(EntryInvalid, io.EOF)\<close>.
\<close>

type_synonym Parser = "(Entry \<times> error option) list"

text \<open>
  The functions of the library that are parameters of the model: \<^verbatim>\<open>textparse.New\<close>,
  \<^verbatim>\<open>Labels.Hash\<close> and \<^verbatim>\<open>Labels.String\<close>.
\<close>

record Library =
  textparse_New :: "byte list \<Rightarrow> string \<Rightarrow> error + Parser"
  Labels_Hash :: "Labels \<Rightarrow> uint64"
  Labels_String :: "Labels \<Rightarrow> string"

text \<open>
  Modelled from the spec: \<^verbatim>\<open>Parser.Metric\<close> belongs to the Prometheus library and is
  not part of the sources. The spec says that a label set's content does not depend on
  the original order of its pairs and that references are computed independently of the
  insertion order: \<^verbatim>\<open>Metric\<close> delivers the pairs of the entry in canonical order,
  sorted by label name.
\<close>

definition tp_Metric :: "Label list \<Rightarrow> Labels" where
  "tp_Metric raw = sort_key Name raw"

text \<open>\<^verbatim>\<open>Labels.Get\<close>: the value of the first label of that name, the empty string if none.\<close>

fun Get :: "Labels \<Rightarrow> string \<Rightarrow> string" where
  "Get [] name = ''''"
| "Get (l # ls) name = (if Name l = name then Value l else Get ls name)"

text \<open>\<^verbatim>\<open>strings.HasPrefix\<close>.\<close>

definition HasPrefix :: "string \<Rightarrow> string \<Rightarrow> bool" where
  "HasPrefix s p \<longleftrightarrow> length p \<le> length s \<and> take (length p) s = p"

section \<open>GetLabelsByRef and ProcessBody\<close>

text \<open>A Go map read of a missing key gives the zero value, here the empty label set.\<close>

definition GetLabelsByRef :: "Scraper \<Rightarrow> uint64 \<Rightarrow> Labels" where
  "GetLabelsByRef s ref = (case labelsByRef s ref of Some lset \<Rightarrow> lset | None \<Rightarrow> [])"

text \<open>
  The local variables of \<^verbatim>\<open>ProcessBody\<close>. \<open>nowCalls\<close> counts the calls of
  \<^verbatim>\<open>time.Now\<close> made so far; the \<open>k\<close>-th call returns \<open>clock k\<close>, in milliseconds.
\<close>

record Vars =
  currMeta :: MetricMetadata
  batch :: "RefSample list"
  metadata :: "string \<rightharpoonup> MetricMetadata"
  nowCalls :: nat

text \<open>The loop body below the \<^verbatim>\<open>switch\<close>, reached for a series entry.\<close>

definition ProcessBody_series ::
  "Library \<Rightarrow> (nat \<Rightarrow> int64) \<Rightarrow> Scraper \<times> Vars \<Rightarrow> Label list \<Rightarrow> int64 option \<Rightarrow> float64
    \<Rightarrow> Scraper \<times> Vars" where
  "ProcessBody_series lib clock st raw parsedTimestamp val =
    (let s = fst st; v = snd st;
         t = clock (nowCalls v);
         t = (case parsedTimestamp of Some p \<Rightarrow> p | None \<Rightarrow> t);
         lset = tp_Metric raw;
         ref = Labels_Hash lib lset;
         metadata' = (metadata v)(Metric (currMeta v) \<mapsto> currMeta v);
         s = s\<lparr>labelsByRef := (labelsByRef s)(ref \<mapsto> lset)\<rparr>;
         containerName = Get lset ''name'';
         isLibopsContainer = HasPrefix containerName ''libops-'';
         isTasksState = (Metric (currMeta v) = ''container_tasks_state'');
         isPositiveValue = float64_gt val (Finite 0);
         isCapContainer = (containerName = ''cap'');
         matchesRegex = FilterRegex (Cfg s) (Labels_String lib lset);
         batch' = (if \<not> isLibopsContainer \<and> \<not> isTasksState \<and> isPositiveValue
                      \<and> \<not> isCapContainer \<and> matchesRegex
                   then batch v @ [\<lparr>Ref = ref, T = t, V = val\<rparr>]
                   else batch v)
     in (s, v\<lparr>batch := batch', metadata := metadata', nowCalls := Suc (nowCalls v)\<rparr>))"

text \<open>
  One pass through the loop body for an entry that passed the \<^verbatim>\<open>break\<close> test. The
  \<^verbatim>\<open>default\<close> branch of the switch is the series entry; \<open>EntryInvalid\<close> never gets
  here.
\<close>

fun ProcessBody_entry ::
  "Library \<Rightarrow> (nat \<Rightarrow> int64) \<Rightarrow> Scraper \<times> Vars \<Rightarrow> Entry \<Rightarrow> Scraper \<times> Vars" where
  "ProcessBody_entry lib clock st (EntryType mName ty) =
     (fst st, (snd st)\<lparr>currMeta := (currMeta (snd st))\<lparr>Type := ty\<rparr>\<rparr>)"
| "ProcessBody_entry lib clock st (EntryHelp mName mHelp) =
     (fst st, (snd st)\<lparr>currMeta := (currMeta (snd st))\<lparr>Metric := mName, Help := mHelp\<rparr>\<rparr>)"
| "ProcessBody_entry lib clock st EntryUnit = st"
| "ProcessBody_entry lib clock st EntryComment = st"
| "ProcessBody_entry lib clock st EntryHistogram =
     ((fst st)\<lparr>logger := logger (fst st) @
        [Log Warn ''Skipping EntryHistogram (not implemented)'' ''metric''
           (Metric (currMeta (snd st)))]\<rparr>, snd st)"
| "ProcessBody_entry lib clock st (EntrySeries raw parsedTimestamp val) =
     ProcessBody_series lib clock st raw parsedTimestamp val"
| "ProcessBody_entry lib clock st EntryInvalid = st"

text \<open>The \<^verbatim>\<open>for\<close> loop: it ends at the end of the input or at the first parse error.\<close>

fun ProcessBody_loop ::
  "Library \<Rightarrow> (nat \<Rightarrow> int64) \<Rightarrow> Parser \<Rightarrow> Scraper \<times> Vars \<Rightarrow> Scraper \<times> Vars" where
  "ProcessBody_loop lib clock [] st = st"
| "ProcessBody_loop lib clock (r # tp) st =
     (if fst r = EntryInvalid \<or> snd r \<noteq> None then st
      else ProcessBody_loop lib clock tp (ProcessBody_entry lib clock st (fst r)))"

definition ProcessBody ::
  "Library \<Rightarrow> (nat \<Rightarrow> int64) \<Rightarrow> Scraper \<Rightarrow> byte list
    \<Rightarrow> (error + RefSample list \<times> (string \<rightharpoonup> MetricMetadata)) \<times> Scraper" where
  "ProcessBody lib clock s bodyBytes =
    (case textparse_New lib bodyBytes ''text/plain'' of
       Inl err \<Rightarrow> (Inl (''failed to initialize text parser: '' @ err), s)
     | Inr tp \<Rightarrow>
         (let v = \<lparr>currMeta = \<lparr>Metric = '''', Type = '''', Help = ''''\<rparr>,
                   batch = [], metadata = Map.empty, nowCalls = 0\<rparr>;
              s = s\<lparr>labelsByRef := Map.empty\<rparr>;
              st = ProcessBody_loop lib clock tp (s, v)
          in (Inr (batch (snd st), metadata (snd st)), fst st)))"

section \<open>scrapeAndExport and Run\<close>

text \<open>
  What \<^verbatim>\<open>client.Get\<close> hands back when it succeeds: the status, the result of
  reading the body to its end, and the result of closing it.
\<close>

record Response =
  StatusCode :: int
  Status :: string
  Body :: "error + byte list"
  Body_Close :: "error option"

text \<open>
  One cycle; \<open>get\<close> is the result of \<^verbatim>\<open>client.Get\<close>. The deferred close runs on
  every path after a successful fetch.
\<close>

definition scrapeAndExport ::
  "Library \<Rightarrow> (nat \<Rightarrow> int64) \<Rightarrow> Scraper \<Rightarrow> error + Response \<Rightarrow> error option \<times> Scraper" where
  "scrapeAndExport lib clock s get =
    (case get of
       Inl err \<Rightarrow>
         (Some (''failed to fetch Prometheus metrics from '' @ cAdvisorURL s @ '': '' @ err), s)
     | Inr resp \<Rightarrow>
         (let r =
            (if StatusCode resp \<noteq> 200
             then (Some (''prometheus responded with non-OK status: '' @ Status resp), s)
             else case Body resp of
                 Inl err \<Rightarrow> (Some (''failed to read response body: '' @ err), s)
               | Inr bodyBytes \<Rightarrow>
                   (case ProcessBody lib clock s bodyBytes of
                      (Inl err, s') \<Rightarrow> (Some (''failed to process scraped body: '' @ err), s')
                    | (Inr bm, s') \<Rightarrow> (None, s'\<lparr>exporter := exporter s' @ [bm]\<rparr>)))
          in (fst r,
              case Body_Close resp of
                Some err \<Rightarrow>
                  (snd r)\<lparr>logger := logger (snd r) @
                     [Log Error ''Failed to close response body'' ''err'' err]\<rparr>
              | None \<Rightarrow> snd r)))"

text \<open>
  The loop of \<^verbatim>\<open>Run\<close> over the sequence of cases its \<^verbatim>\<open>select\<close> takes: the
  cancellation (with \<^verbatim>\<open>ctx.Err()\<close>) or a tick, which comes with what the fetch of
  that cycle returns and with the clock of that cycle. When the sequence is used up the
  loop is waiting in \<^verbatim>\<open>select\<close>. The exporter's own goroutine is not modelled.
\<close>

datatype Select = ctx_Done error | ticker_C "error + Response" "nat \<Rightarrow> int64"

datatype RunState = Running | Stopped

fun Run :: "Library \<Rightarrow> Scraper \<Rightarrow> Select list \<Rightarrow> RunState \<times> Scraper" where
  "Run lib s [] = (Running, s)"
| "Run lib s (ctx_Done reason # evs) =
     (Stopped, s\<lparr>logger := logger s @ [Log Info ''Shutting down scraper'' ''reason'' reason]\<rparr>)"
| "Run lib s (ticker_C get clock # evs) =
     (case scrapeAndExport lib clock s get of
        (Some err, s') \<Rightarrow>
          Run lib (s'\<lparr>logger := logger s' @
             [Log Error ''Failed scrape and export iteration'' ''err'' err]\<rparr>) evs
      | (None, s') \<Rightarrow> Run lib s' evs)"

section \<open>Notions used to state the properties\<close>

text \<open>
  An entry is decoded when the loop does not leave at it: the negation of the
  \<^verbatim>\<open>break\<close> test. The decoded entries of a parser are those before the first
  result that fails the test.
\<close>

definition valid :: "Entry \<times> error option \<Rightarrow> bool" where
  "valid r \<longleftrightarrow> fst r \<noteq> EntryInvalid \<and> snd r = None"

definition decoded :: "Parser \<Rightarrow> Entry list" where
  "decoded tp = map fst (takeWhile valid tp)"

text \<open>The three results of \<^verbatim>\<open>ProcessBody\<close>; batch and index are \<^verbatim>\<open>nil\<close> with an error.\<close>

definition batch_of ::
  "(error + RefSample list \<times> (string \<rightharpoonup> MetricMetadata)) \<times> Scraper \<Rightarrow> RefSample list" where
  "batch_of r = (case fst r of Inr bm \<Rightarrow> fst bm | Inl err \<Rightarrow> [])"

definition metadata_of ::
  "(error + RefSample list \<times> (string \<rightharpoonup> MetricMetadata)) \<times> Scraper
    \<Rightarrow> string \<rightharpoonup> MetricMetadata" where
  "metadata_of r = (case fst r of Inr bm \<Rightarrow> snd bm | Inl err \<Rightarrow> Map.empty)"

definition error_of ::
  "(error + RefSample list \<times> (string \<rightharpoonup> MetricMetadata)) \<times> Scraper \<Rightarrow> error option" where
  "error_of r = (case fst r of Inr bm \<Rightarrow> None | Inl err \<Rightarrow> Some err)"

text \<open>\<open>each_with_earlier f es\<close> applies \<open>f\<close> to every entry and the entries before it.\<close>

definition each_with_earlier :: "('a list \<Rightarrow> 'a \<Rightarrow> 'b) \<Rightarrow> 'a list \<Rightarrow> 'b list" where
  "each_with_earlier f es = map (\<lambda>i. f (take i es) (es ! i)) [0..<length es]"

definition last_or :: "'a \<Rightarrow> 'a list \<Rightarrow> 'a" where
  "last_or d xs = (if xs = [] then d else last xs)"

text \<open>
  The metadata accumulator after the entries \<open>es\<close>: name and help text of the most
  recent \<^verbatim>\<open>HELP\<close> entry, type of the most recent \<^verbatim>\<open>TYPE\<close> entry, empty strings
  where there was none.
\<close>

definition tracked_meta :: "Entry list \<Rightarrow> MetricMetadata" where
  "tracked_meta es =
     \<lparr>Metric = last_or '''' [n. EntryHelp n h \<leftarrow> es],
      Type = last_or '''' [ty. EntryType n ty \<leftarrow> es],
      Help = last_or '''' [h. EntryHelp n h \<leftarrow> es]\<rparr>"

text \<open>The label sets of the series entries among \<open>es\<close>, in order.\<close>

definition series_lsets :: "Entry list \<Rightarrow> Labels list" where
  "series_lsets es = [tp_Metric raw. EntrySeries raw ts val \<leftarrow> es]"

text \<open>
  The map that results from writing the values \<open>ws\<close> one after the other, each under
  its key: a key holds the last value written under it.
\<close>

definition last_written :: "('v \<Rightarrow> 'k) \<Rightarrow> 'v list \<Rightarrow> 'k \<rightharpoonup> 'v" where
  "last_written key ws k =
     (if filter (\<lambda>w. key w = k) ws = [] then None
      else Some (last (filter (\<lambda>w. key w = k) ws)))"

text \<open>
  The filter contract of the spec, \<^verbatim>\<open>accept(sampleLabelSet, metricName, value,
  configuration)\<close>, with its five rules in the order of the spec.
\<close>

definition accept :: "Library \<Rightarrow> Config \<Rightarrow> Labels \<Rightarrow> string \<Rightarrow> float64 \<Rightarrow> bool" where
  "accept lib cfg lset metricName val \<longleftrightarrow>
     \<not> HasPrefix (Get lset ''name'') ''libops-''
     \<and> metricName \<noteq> ''container_tasks_state''
     \<and> float64_gt val (Finite 0)
     \<and> Get lset ''name'' \<noteq> ''cap''
     \<and> FilterRegex cfg (Labels_String lib lset)"

text \<open>
  What the entry \<open>e\<close>, decoded after the entries \<open>pre\<close>, adds to the batch: one sample
  if it is a series entry that the filter accepts, nothing otherwise. The metric name
  handed to the filter is the one of the accumulator.
\<close>

definition contribution ::
  "Library \<Rightarrow> Config \<Rightarrow> (nat \<Rightarrow> int64) \<Rightarrow> Entry list \<Rightarrow> Entry \<Rightarrow> RefSample list" where
  "contribution lib cfg clock pre e =
     (case e of
        EntrySeries raw ts val \<Rightarrow>
          if accept lib cfg (tp_Metric raw) (Metric (tracked_meta pre)) val
          then [\<lparr>Ref = Labels_Hash lib (tp_Metric raw),
                 T = (case ts of Some p \<Rightarrow> p | None \<Rightarrow> clock (length (series_lsets pre))),
                 V = val\<rparr>]
          else []
      | _ \<Rightarrow> [])"

definition accepted ::
  "Library \<Rightarrow> Config \<Rightarrow> (nat \<Rightarrow> int64) \<Rightarrow> Entry list \<Rightarrow> RefSample list" where
  "accepted lib cfg clock es = concat (each_with_earlier (contribution lib cfg clock) es)"

text \<open>The values written to the metadata index, in order: one per series entry.\<close>

definition index_writes :: "Entry list \<Rightarrow> MetricMetadata list" where
  "index_writes es =
     concat (each_with_earlier
       (\<lambda>pre e. case e of EntrySeries raw ts val \<Rightarrow> [tracked_meta pre] | _ \<Rightarrow> []) es)"

text \<open>The state in which the loop of \<^verbatim>\<open>ProcessBody\<close> starts.\<close>

definition start :: "Scraper \<Rightarrow> Scraper \<times> Vars" where
  "start s = (s\<lparr>labelsByRef := Map.empty\<rparr>,
     \<lparr>currMeta = \<lparr>Metric = '''', Type = '''', Help = ''''\<rparr>,
      batch = [], metadata = Map.empty, nowCalls = 0\<rparr>)"

section \<open>A concrete scraper and payloads\<close>

text \<open>
  The configuration of the repository's tests (pattern \<^verbatim>\<open>.*\<close>), a scraper whose
  registry still holds a label set of an earlier cycle, a clock, and simple stand-ins for
  the hash and the rendering of a label set.
\<close>

definition ex_Cfg :: Config where
  "ex_Cfg = \<lparr>ProjectID = ''p'', Location = ''l'', Cluster = ''c'',
     CADVISORHost = ''localhost:8080'', ScrapeInterval = 30000000000,
     FilterPattern = ''.*'', FilterRegex = (\<lambda>s. True)\<rparr>"

definition ex_s :: Scraper where
  "ex_s = \<lparr>Cfg = ex_Cfg, exporter = [], cAdvisorURL = ''http://localhost:8080/metrics'',
     logger = [], labelsByRef = [99 \<mapsto> [\<lparr>Name = ''name'', Value = ''stale''\<rparr>]]\<rparr>"

definition ex_clock :: "nat \<Rightarrow> int64" where
  "ex_clock k = 1000 + of_nat k"

definition ex_Hash :: "Labels \<Rightarrow> uint64" where
  "ex_Hash ls = word_of_nat
     (foldl (\<lambda>h c. (31 * h + of_char c) mod 65521) 0 (concat (map (\<lambda>l. Name l @ Value l) ls)))"

definition ex_String :: "Labels \<Rightarrow> string" where
  "ex_String ls = concat (map (\<lambda>l. Name l @ ''='' @ Value l @ '','') ls)"

text \<open>
  The payload of \<^verbatim>\<open>TestProcessBody_Filtering\<close> as the parser reports it, shortened
  and with a histogram entry added; then the same payload followed by a malformed line and
  one more sample.
\<close>

definition ex_entries :: Parser where
  "ex_entries =
    [(EntryHelp ''cpu'' ''Cumulative cpu time.'', None),
     (EntryType ''cpu'' ''counter'', None),
     (EntrySeries [\<lparr>Name = ''__name__'', Value = ''cpu''\<rparr>,
          \<lparr>Name = ''name'', Value = ''cap''\<rparr>, \<lparr>Name = ''id'', Value = ''/''\<rparr>]
        (Some 1678886400000) (Finite 100), None),
     (EntrySeries [\<lparr>Name = ''__name__'', Value = ''cpu''\<rparr>,
          \<lparr>Name = ''name'', Value = ''my-app''\<rparr>, \<lparr>Name = ''id'', Value = ''/c1''\<rparr>]
        None (Finite 5), None),
     (EntryHistogram, None),
     (EntrySeries [\<lparr>Name = ''__name__'', Value = ''cpu''\<rparr>,
          \<lparr>Name = ''id'', Value = ''/c2''\<rparr>, \<lparr>Name = ''name'', Value = ''libops-cache''\<rparr>]
        None (Finite 1), None),
     (EntrySeries [\<lparr>Name = ''__name__'', Value = ''cpu''\<rparr>,
          \<lparr>Name = ''id'', Value = ''/c3''\<rparr>, \<lparr>Name = ''name'', Value = ''other-app''\<rparr>]
        None (Finite 0), None),
     (EntryHelp ''container_tasks_state'' ''The state.'', None),
     (EntryType ''container_tasks_state'' ''gauge'', None),
     (EntrySeries [\<lparr>Name = ''__name__'', Value = ''container_tasks_state''\<rparr>,
          \<lparr>Name = ''state'', Value = ''running''\<rparr>, \<lparr>Name = ''name'', Value = ''my-app''\<rparr>]
        None (Finite 1), None)]"

definition ex_late :: Parser where
  "ex_late = [(EntrySeries [\<lparr>Name = ''__name__'', Value = ''cpu''\<rparr>,
          \<lparr>Name = ''name'', Value = ''late''\<rparr>] None (Finite 9), None)]"

definition ex_tp :: Parser where
  "ex_tp = ex_entries @ (EntryInvalid, Some ''expected value after metric'') # ex_late"

text \<open>
  A payload for the metadata index: a sample before any \<^verbatim>\<open>HELP\<close> line, a metric
  \<^verbatim>\<open>a\<close> with metadata and no sample, a \<^verbatim>\<open>TYPE\<close> line for \<^verbatim>\<open>c\<close> after the
  \<^verbatim>\<open>HELP\<close> line of \<^verbatim>\<open>b\<close>, a sample of \<^verbatim>\<open>b\<close> that the filter rejects, and
  a second \<^verbatim>\<open>HELP\<close> line for \<^verbatim>\<open>b\<close>.
\<close>

definition ex_meta :: Parser where
  "ex_meta =
    [(EntrySeries [\<lparr>Name = ''__name__'', Value = ''up''\<rparr>,
          \<lparr>Name = ''name'', Value = ''early''\<rparr>] None (Finite 2), None),
     (EntryHelp ''a'' ''About a.'', None),
     (EntryType ''a'' ''gauge'', None),
     (EntryHelp ''b'' ''About b.'', None),
     (EntryType ''c'' ''counter'', None),
     (EntrySeries [\<lparr>Name = ''__name__'', Value = ''b''\<rparr>,
          \<lparr>Name = ''name'', Value = ''cap''\<rparr>] None (Finite 100), None),
     (EntryHelp ''b'' ''Second text.'', None)]"

text \<open>A summary in the text format: its quantile line is a series entry.\<close>

definition ex_summary :: Parser where
  "ex_summary =
    [(EntryHelp ''rpc'' ''Latency.'', None),
     (EntryType ''rpc'' ''summary'', None),
     (EntrySeries [\<lparr>Name = ''__name__'', Value = ''rpc''\<rparr>,
          \<lparr>Name = ''quantile'', Value = ''0.5''\<rparr>, \<lparr>Name = ''name'', Value = ''api''\<rparr>]
        None (Finite 3), None)]"

text \<open>Two samples of one series, their label pairs written in different orders.\<close>

definition ex_permuted :: Parser where
  "ex_permuted =
    [(EntrySeries [\<lparr>Name = ''__name__'', Value = ''cpu''\<rparr>,
          \<lparr>Name = ''name'', Value = ''x''\<rparr>, \<lparr>Name = ''id'', Value = ''/a''\<rparr>]
        None (Finite 1), None),
     (EntrySeries [\<lparr>Name = ''__name__'', Value = ''cpu''\<rparr>,
          \<lparr>Name = ''id'', Value = ''/a''\<rparr>, \<lparr>Name = ''name'', Value = ''x''\<rparr>]
        None (Finite 2), None)]"

text \<open>
  A library whose parser reads a payload through \<open>parse\<close>, and a reading of
  payloads: the empty one cannot be parsed at all, \<open>[1]\<close> is the payload with the
  malformed line, \<open>[2]\<close> the one without it, \<open>[3]\<close> is \<open>[2]\<close> without its
  histogram entry; the others are the three payloads above.
\<close>

definition lib_on :: "(byte list \<Rightarrow> error + Parser) \<Rightarrow> Library" where
  "lib_on parse =
     \<lparr>textparse_New = (\<lambda>b ct. parse b), Labels_Hash = ex_Hash, Labels_String = ex_String\<rparr>"

definition ex_parse :: "byte list \<Rightarrow> error + Parser" where
  "ex_parse b =
     (if b = [] then Inl ''unsupported payload''
      else if b = [1] then Inr ex_tp
      else if b = [2] then Inr ex_entries
      else if b = [3] then Inr (filter (\<lambda>r. r \<noteq> (EntryHistogram, None)) ex_entries)
      else if b = [4] then Inr ex_meta
      else if b = [5] then Inr ex_summary
      else Inr ex_permuted)"

definition ex_lib :: Library where
  "ex_lib = lib_on ex_parse"




text \<open>The notes that the histogram entries among \<open>es\<close> make the logger write.\<close>

definition histogram_notes :: "Entry list \<Rightarrow> LogRecord list" where
  "histogram_notes es =
     concat (each_with_earlier
       (\<lambda>pre e. case e of
            EntryHistogram \<Rightarrow>
              [Log Warn ''Skipping EntryHistogram (not implemented)'' ''metric''
                 (Metric (tracked_meta pre))]
          | _ \<Rightarrow> []) es)"

text \<open>
  The record that \<^verbatim>\<open>Run\<close> logs for a failed cycle, and the ticks that the loop takes
  before the cancellation.
\<close>

definition is_failure_note :: "LogRecord \<Rightarrow> bool" where
  "is_failure_note r =
     (case r of Log lv msg k v \<Rightarrow> lv = Error \<and> msg = ''Failed scrape and export iteration'')"

definition ticks_before_cancel :: "Select list \<Rightarrow> Select list" where
  "ticks_before_cancel evs =
     takeWhile (\<lambda>ev. case ev of ticker_C get clock \<Rightarrow> True | ctx_Done reason \<Rightarrow> False) evs"

text \<open>
  Five ticks and a cancellation: the fetch fails, the endpoint answers 503, the body
  cannot be read, the parser cannot be initialised, the cycle succeeds on payload
  \<open>[2]\<close>; the tick after the cancellation is never taken.
\<close>

definition ex_events :: "Select list" where
  "ex_events =
    [ticker_C (Inl ''connection refused'') ex_clock,
     ticker_C (Inr \<lparr>StatusCode = 503, Status = ''503 Service Unavailable'', Body = Inr [],
        Body_Close = None\<rparr>) ex_clock,
     ticker_C (Inr \<lparr>StatusCode = 200, Status = ''200 OK'', Body = Inl ''unexpected EOF'',
        Body_Close = Some ''already closed''\<rparr>) ex_clock,
     ticker_C (Inr \<lparr>StatusCode = 200, Status = ''200 OK'', Body = Inr [],
        Body_Close = None\<rparr>) ex_clock,
     ticker_C (Inr \<lparr>StatusCode = 200, Status = ''200 OK'', Body = Inr [2],
        Body_Close = None\<rparr>) ex_clock,
     ctx_Done ''context canceled'',
     ticker_C (Inr \<lparr>StatusCode = 200, Status = ''200 OK'', Body = Inr [2],
        Body_Close = None\<rparr>) ex_clock]"

section \<open>The loop in closed form\<close>

lemma loop_stops: "\<not> valid r \<Longrightarrow> ProcessBody_loop lib clock (r # tp) st = st"
  by (auto simp: valid_def)

lemma loop_decoded:
  "ProcessBody_loop lib clock tp st = foldl (ProcessBody_entry lib clock) st (decoded tp)"
  by (induction tp arbitrary: st) (auto simp: decoded_def valid_def)

lemma ProcessBody_unfold:
  "ProcessBody lib clock s bodyBytes =
    (case textparse_New lib bodyBytes ''text/plain'' of
       Inl err \<Rightarrow> (Inl (''failed to initialize text parser: '' @ err), s)
     | Inr tp \<Rightarrow>
         (Inr (batch (snd (foldl (ProcessBody_entry lib clock) (start s) (decoded tp))),
               metadata (snd (foldl (ProcessBody_entry lib clock) (start s) (decoded tp)))),
          fst (foldl (ProcessBody_entry lib clock) (start s) (decoded tp))))"
  by (simp add: ProcessBody_def start_def loop_decoded Let_def split: sum.splits)

lemma each_with_earlier_Nil [simp]: "each_with_earlier f [] = []"
  by (simp add: each_with_earlier_def)

lemma each_with_earlier_snoc [simp]:
  "each_with_earlier f (es @ [e]) = each_with_earlier f es @ [f es e]"
  by (simp add: each_with_earlier_def nth_append)

lemma last_written_Nil [simp]: "last_written key [] = Map.empty"
  by (rule ext) (simp add: last_written_def)

lemma last_written_snoc [simp]:
  "last_written key (ws @ [w]) = (last_written key ws)(key w \<mapsto> w)"
  by (rule ext) (simp add: last_written_def)

lemma dom_last_written: "dom (last_written key ws) = key ` set ws"
  by (induction ws rule: rev_induct) (auto simp: dom_def)

lemma last_written_SomeD: "last_written key ws k = Some w \<Longrightarrow> w \<in> set ws \<and> key w = k"
  by (induction ws rule: rev_induct) (auto split: if_splits)

lemma last_written_inj:
  "inj_on key (set ws) \<Longrightarrow> w \<in> set ws \<Longrightarrow> last_written key ws (key w) = Some w"
  by (induction ws rule: rev_induct) (auto simp: inj_on_def)

lemma currMeta_closed:
  "currMeta (snd (foldl (ProcessBody_entry lib clock) (start s) es)) = tracked_meta es"
proof (induction es rule: rev_induct)
  case Nil
  show ?case by (simp add: start_def tracked_meta_def last_or_def)
next
  case (snoc e es)
  then show ?case
    by (cases e) (simp_all add: tracked_meta_def last_or_def ProcessBody_series_def Let_def)
qed

lemma nowCalls_closed:
  "nowCalls (snd (foldl (ProcessBody_entry lib clock) (start s) es)) = length (series_lsets es)"
proof (induction es rule: rev_induct)
  case Nil
  show ?case by (simp add: start_def series_lsets_def)
next
  case (snoc e es)
  then show ?case
    by (cases e) (simp_all add: series_lsets_def ProcessBody_series_def Let_def)
qed

lemma Cfg_closed:
  "Cfg (fst (foldl (ProcessBody_entry lib clock) st es)) = Cfg (fst st)"
proof (induction es rule: rev_induct)
  case Nil
  show ?case by simp
next
  case (snoc e es)
  then show ?case
    by (cases e) (simp_all add: ProcessBody_series_def Let_def)
qed

lemma batch_closed:
  "batch (snd (foldl (ProcessBody_entry lib clock) (start s) es)) = accepted lib (Cfg s) clock es"
proof (induction es rule: rev_induct)
  case Nil
  show ?case by (simp add: start_def accepted_def)
next
  case (snoc e es)
  have cfg: "Cfg (fst (foldl (ProcessBody_entry lib clock) (start s) es)) = Cfg s"
    by (simp add: Cfg_closed start_def)
  show ?case
    using snoc cfg
    by (cases e)
      (simp_all add: accepted_def contribution_def accept_def ProcessBody_series_def Let_def
        currMeta_closed nowCalls_closed split: option.splits)
qed

lemma metadata_closed:
  "metadata (snd (foldl (ProcessBody_entry lib clock) (start s) es)) =
     last_written Metric (index_writes es)"
proof (induction es rule: rev_induct)
  case Nil
  show ?case by (simp add: start_def index_writes_def)
next
  case (snoc e es)
  then show ?case
    by (cases e)
      (simp_all add: index_writes_def ProcessBody_series_def Let_def currMeta_closed)
qed

lemma labelsByRef_closed:
  "labelsByRef (fst (foldl (ProcessBody_entry lib clock) (start s) es)) =
     last_written (Labels_Hash lib) (series_lsets es)"
proof (induction es rule: rev_induct)
  case Nil
  show ?case by (simp add: start_def series_lsets_def)
next
  case (snoc e es)
  then show ?case
    by (cases e) (simp_all add: series_lsets_def ProcessBody_series_def Let_def)
qed

lemma batch_of_ProcessBody:
  "textparse_New lib bodyBytes ''text/plain'' = Inr tp \<Longrightarrow>
   batch_of (ProcessBody lib clock s bodyBytes) = accepted lib (Cfg s) clock (decoded tp)"
  by (simp add: batch_of_def ProcessBody_unfold batch_closed)

lemma metadata_of_ProcessBody:
  "textparse_New lib bodyBytes ''text/plain'' = Inr tp \<Longrightarrow>
   metadata_of (ProcessBody lib clock s bodyBytes) = last_written Metric (index_writes (decoded tp))"
  by (simp add: metadata_of_def ProcessBody_unfold metadata_closed)

lemma registry_of_ProcessBody:
  "textparse_New lib bodyBytes ''text/plain'' = Inr tp \<Longrightarrow>
   labelsByRef (snd (ProcessBody lib clock s bodyBytes)) =
     last_written (Labels_Hash lib) (series_lsets (decoded tp))"
  by (simp add: ProcessBody_unfold labelsByRef_closed)

lemmas ex_defs =
  ex_lib_def lib_on_def ex_parse_def ex_tp_def ex_entries_def ex_late_def ex_meta_def
  ex_summary_def ex_permuted_def ex_s_def ex_Cfg_def ex_clock_def ex_Hash_def ex_String_def

lemmas run_defs =
  ProcessBody_def ProcessBody_series_def Let_def tp_Metric_def HasPrefix_def
  batch_of_def metadata_of_def error_of_def GetLabelsByRef_def

section \<open>The filter\<close>



lemma decoded_truncated:
  assumes "\<forall>r\<in>set pre. fst r \<noteq> EntryInvalid \<and> snd r = None"
    and "fst bad = EntryInvalid \<or> snd bad \<noteq> None"
  shows "decoded (pre @ bad # rest) = map fst pre"
  using assms by (induction pre) (auto simp: decoded_def valid_def)

lemma decoded_all_valid:
  assumes "\<forall>r\<in>set pre. fst r \<noteq> EntryInvalid \<and> snd r = None"
  shows "decoded pre = map fst pre"
  using assms by (induction pre) (auto simp: decoded_def valid_def)

lemma error_of_ProcessBody:
  "error_of (ProcessBody lib clock s b) =
     (case textparse_New lib b ''text/plain'' of
        Inl err \<Rightarrow> Some (''failed to initialize text parser: '' @ err) | Inr tp \<Rightarrow> None)"
  by (simp add: error_of_def ProcessBody_unfold split: sum.splits)

section \<open>Errors and truncation\<close>

text \<open>
  C4. The pipeline returns an error exactly when the parser cannot be initialised on the
  payload. A result of \<^verbatim>\<open>Next\<close> that is invalid or carries an error, met after the
  entries \<open>pre\<close>, is no error: the run returns what a run on a payload consisting of
  \<open>pre\<close> alone returns, state included, so the entries before the truncation point
  are processed as usual and the batch and the index built from them are returned.
\<close>

theorem hard_error_only_when_parser_cannot_start:
  assumes "textparse_New lib b ''text/plain'' = Inr (pre @ bad # rest)"
    and "\<forall>r\<in>set pre. fst r \<noteq> EntryInvalid \<and> snd r = None"
    and "fst bad = EntryInvalid \<or> snd bad \<noteq> None"
    and "textparse_New lib b' ''text/plain'' = Inr pre"
  shows "(error_of (ProcessBody lib clock s b0) \<noteq> None
           \<longleftrightarrow> (\<exists>err. textparse_New lib b0 ''text/plain'' = Inl err))
    \<and> error_of (ProcessBody lib clock s b) = None
    \<and> ProcessBody lib clock s b = ProcessBody lib clock s b'
    \<and> batch_of (ProcessBody lib clock s b) = accepted lib (Cfg s) clock (map fst pre)
    \<and> metadata_of (ProcessBody lib clock s b) = last_written Metric (index_writes (map fst pre))"
proof -
  have d: "decoded (pre @ bad # rest) = map fst pre" "decoded pre = map fst pre"
    using assms(2,3) by (simp_all add: decoded_truncated decoded_all_valid)
  have "error_of (ProcessBody lib clock s b0) \<noteq> None
           \<longleftrightarrow> (\<exists>err. textparse_New lib b0 ''text/plain'' = Inl err)"
    by (simp add: error_of_ProcessBody split: sum.splits)
  moreover have "error_of (ProcessBody lib clock s b) = None"
    using assms(1) by (simp add: error_of_ProcessBody)
  moreover have "ProcessBody lib clock s b = ProcessBody lib clock s b'"
    using assms(1,4) d by (simp add: ProcessBody_unfold)
  moreover have "batch_of (ProcessBody lib clock s b) = accepted lib (Cfg s) clock (map fst pre)"
    using assms(1) d by (simp add: batch_of_ProcessBody)
  moreover have "metadata_of (ProcessBody lib clock s b) = last_written Metric (index_writes (map fst pre))"
    using assms(1) d by (simp add: metadata_of_ProcessBody)
  ultimately show ?thesis by blast
qed

theorem hard_error_only_when_parser_cannot_start_witness:
  "textparse_New ex_lib [1] ''text/plain''
     = Inr (ex_entries @ (EntryInvalid, Some ''expected value after metric'') # ex_late)
   \<and> list_all valid ex_entries
   \<and> \<not> valid (EntryInvalid, Some ''expected value after metric'')
   \<and> textparse_New ex_lib [2] ''text/plain'' = Inr ex_entries
   \<and> error_of (ProcessBody ex_lib ex_clock ex_s []) \<noteq> None
   \<and> error_of (ProcessBody ex_lib ex_clock ex_s [1]) = None
   \<and> ProcessBody ex_lib ex_clock ex_s [1] = ProcessBody ex_lib ex_clock ex_s [2]
   \<and> batch_of (ProcessBody ex_lib ex_clock ex_s [1]) = [\<lparr>Ref = 31008, T = 1001, V = Finite 5\<rparr>]"
proof -
  have h1: "textparse_New ex_lib [1] ''text/plain''
     = Inr (ex_entries @ (EntryInvalid, Some ''expected value after metric'') # ex_late)"
    by (simp add: ex_lib_def lib_on_def ex_parse_def ex_tp_def)
  have h2: "\<forall>r\<in>set ex_entries. fst r \<noteq> EntryInvalid \<and> snd r = None"
    by (simp add: ex_entries_def)
  have h3: "fst (EntryInvalid, Some ''expected value after metric'') = EntryInvalid
        \<or> snd (EntryInvalid, Some ''expected value after metric'') \<noteq> None"
    by simp
  have h4: "textparse_New ex_lib [2] ''text/plain'' = Inr ex_entries"
    by (simp add: ex_lib_def lib_on_def ex_parse_def)
  have e: "\<exists>err. textparse_New ex_lib [] ''text/plain'' = Inl err"
    by (simp add: ex_lib_def lib_on_def ex_parse_def)
  have run: "batch_of (ProcessBody ex_lib ex_clock ex_s [1]) = [\<lparr>Ref = 31008, T = 1001, V = Finite 5\<rparr>]"
    by (simp add: ex_defs run_defs)
  have v: "list_all valid ex_entries"
    "\<not> valid (EntryInvalid, Some ''expected value after metric'')"
    by (simp_all add: valid_def ex_entries_def)
  from hard_error_only_when_parser_cannot_start [OF h1 h2 h3 h4, of ex_clock ex_s "[]"] h1 h4 e run v
  show ?thesis by blast
qed

lemma series_lsets_mem:
  "EntrySeries raw ts val \<in> set es \<Longrightarrow> tp_Metric raw \<in> set (series_lsets es)"
  by (force simp: series_lsets_def)

lemma GetLabelsByRef_Some: "labelsByRef s ref = Some lset \<Longrightarrow> GetLabelsByRef s ref = lset"
  by (simp add: GetLabelsByRef_def)

lemma accepted_mem:
  assumes "x \<in> set (accepted lib cfg clock es)"
  shows "\<exists>n raw ts val. n < length es \<and> es ! n = EntrySeries raw ts val
           \<and> x \<in> set (contribution lib cfg clock (take n es) (es ! n))
           \<and> Ref x = Labels_Hash lib (tp_Metric raw) \<and> V x = val"
proof -
  from assms obtain n where n: "n < length es"
      and x: "x \<in> set (contribution lib cfg clock (take n es) (es ! n))"
    by (auto simp: accepted_def each_with_earlier_def)
  show ?thesis
  proof (cases "es ! n")
    case (EntrySeries raw ts val)
    with x have "Ref x = Labels_Hash lib (tp_Metric raw) \<and> V x = val"
      by (auto simp: contribution_def split: if_splits)
    with n x EntrySeries show ?thesis by blast
  qed (use x in \<open>simp_all add: contribution_def\<close>)
qed

section \<open>The registry\<close>

text \<open>
  C9. After a run on a payload that the parser accepts, the registry holds a label set
  for every decoded series entry, whether the filter accepted its sample or not: the keys
  of the registry are exactly the references of the decoded series entries. Looking up
  the reference of such an entry gives its own label set as long as no other label set
  of the payload has the same hash.
\<close>

theorem registry_holds_every_decoded_series:
  assumes "textparse_New lib b ''text/plain'' = Inr tp"
    and "EntrySeries raw ts val \<in> set (decoded tp)"
  shows "dom (labelsByRef (snd (ProcessBody lib clock s b)))
           = Labels_Hash lib ` set (series_lsets (decoded tp))
    \<and> Labels_Hash lib (tp_Metric raw) \<in> dom (labelsByRef (snd (ProcessBody lib clock s b)))
    \<and> (inj_on (Labels_Hash lib) (set (series_lsets (decoded tp))) \<longrightarrow>
         labelsByRef (snd (ProcessBody lib clock s b)) (Labels_Hash lib (tp_Metric raw))
           = Some (tp_Metric raw)
         \<and> GetLabelsByRef (snd (ProcessBody lib clock s b)) (Labels_Hash lib (tp_Metric raw))
           = tp_Metric raw)"
proof -
  let ?reg = "labelsByRef (snd (ProcessBody lib clock s b))"
  have reg: "?reg = last_written (Labels_Hash lib) (series_lsets (decoded tp))"
    using assms(1) by (rule registry_of_ProcessBody)
  have mem: "tp_Metric raw \<in> set (series_lsets (decoded tp))"
    using assms(2) by (rule series_lsets_mem)
  have d: "dom ?reg = Labels_Hash lib ` set (series_lsets (decoded tp))"
    by (simp add: reg dom_last_written)
  have "inj_on (Labels_Hash lib) (set (series_lsets (decoded tp))) \<Longrightarrow>
      ?reg (Labels_Hash lib (tp_Metric raw)) = Some (tp_Metric raw)"
    using mem by (simp add: reg last_written_inj)
  with d mem show ?thesis
    by (auto simp: GetLabelsByRef_Some)
qed

lemma ex_decoded:
  "textparse_New ex_lib [1] ''text/plain'' = Inr ex_tp" "decoded ex_tp = map fst ex_entries"
  by (simp_all add: ex_lib_def lib_on_def ex_parse_def ex_tp_def decoded_def valid_def
      ex_entries_def)

lemma ex_lsets:
  "series_lsets (decoded ex_tp) =
    [[\<lparr>Name = ''__name__'', Value = ''cpu''\<rparr>,
          \<lparr>Name = ''id'', Value = ''/''\<rparr>, \<lparr>Name = ''name'', Value = ''cap''\<rparr>],
     [\<lparr>Name = ''__name__'', Value = ''cpu''\<rparr>,
          \<lparr>Name = ''id'', Value = ''/c1''\<rparr>, \<lparr>Name = ''name'', Value = ''my-app''\<rparr>],
     [\<lparr>Name = ''__name__'', Value = ''cpu''\<rparr>,
          \<lparr>Name = ''id'', Value = ''/c2''\<rparr>, \<lparr>Name = ''name'', Value = ''libops-cache''\<rparr>],
     [\<lparr>Name = ''__name__'', Value = ''cpu''\<rparr>,
          \<lparr>Name = ''id'', Value = ''/c3''\<rparr>, \<lparr>Name = ''name'', Value = ''other-app''\<rparr>],
     [\<lparr>Name = ''__name__'', Value = ''container_tasks_state''\<rparr>,
          \<lparr>Name = ''name'', Value = ''my-app''\<rparr>, \<lparr>Name = ''state'', Value = ''running''\<rparr>]]"
  by (simp add: ex_decoded series_lsets_def ex_entries_def tp_Metric_def)

lemma ex_inj: "inj_on (Labels_Hash ex_lib) (set (series_lsets (decoded ex_tp)))"
  by (simp add: ex_lsets ex_lib_def lib_on_def ex_Hash_def)

theorem registry_holds_every_decoded_series_witness:
  "textparse_New ex_lib [1] ''text/plain'' = Inr ex_tp
   \<and> EntrySeries [\<lparr>Name = ''__name__'', Value = ''cpu''\<rparr>,
          \<lparr>Name = ''name'', Value = ''cap''\<rparr>, \<lparr>Name = ''id'', Value = ''/''\<rparr>]
        (Some 1678886400000) (Finite 100) \<in> set (decoded ex_tp)
   \<and> inj_on (Labels_Hash ex_lib) (set (series_lsets (decoded ex_tp)))
   \<and> batch_of (ProcessBody ex_lib ex_clock ex_s [1]) = [\<lparr>Ref = 31008, T = 1001, V = Finite 5\<rparr>]
   \<and> dom (labelsByRef (snd (ProcessBody ex_lib ex_clock ex_s [1])))
        = {39224, 31008, 38100, 11030, 64902}
   \<and> GetLabelsByRef (snd (ProcessBody ex_lib ex_clock ex_s [1])) 39224
        = [\<lparr>Name = ''__name__'', Value = ''cpu''\<rparr>,
          \<lparr>Name = ''id'', Value = ''/''\<rparr>, \<lparr>Name = ''name'', Value = ''cap''\<rparr>]"
proof -
  have mem: "EntrySeries [\<lparr>Name = ''__name__'', Value = ''cpu''\<rparr>,
          \<lparr>Name = ''name'', Value = ''cap''\<rparr>, \<lparr>Name = ''id'', Value = ''/''\<rparr>]
        (Some 1678886400000) (Finite 100) \<in> set (decoded ex_tp)"
    by (simp add: ex_decoded ex_entries_def)
  have run: "batch_of (ProcessBody ex_lib ex_clock ex_s [1]) = [\<lparr>Ref = 31008, T = 1001, V = Finite 5\<rparr>]"
    by (simp add: ex_defs run_defs)
  have h: "Labels_Hash ex_lib (tp_Metric [\<lparr>Name = ''__name__'', Value = ''cpu''\<rparr>,
          \<lparr>Name = ''name'', Value = ''cap''\<rparr>, \<lparr>Name = ''id'', Value = ''/''\<rparr>]) = 39224"
     "tp_Metric [\<lparr>Name = ''__name__'', Value = ''cpu''\<rparr>,
          \<lparr>Name = ''name'', Value = ''cap''\<rparr>, \<lparr>Name = ''id'', Value = ''/''\<rparr>] =
      [\<lparr>Name = ''__name__'', Value = ''cpu''\<rparr>,
          \<lparr>Name = ''id'', Value = ''/''\<rparr>, \<lparr>Name = ''name'', Value = ''cap''\<rparr>]"
     "Labels_Hash ex_lib ` set (series_lsets (decoded ex_tp)) = {39224, 31008, 38100, 11030, 64902}"
    by (simp_all add: ex_lsets tp_Metric_def ex_lib_def lib_on_def ex_Hash_def)
  from registry_holds_every_decoded_series [OF ex_decoded(1) mem, of ex_clock ex_s]
    ex_decoded(1) mem ex_inj run h
  show ?thesis by simp
qed

text \<open>
  C3. Every entry of the returned batch carries a reference that the registry resolves:
  the entry was produced by a decoded series entry, its reference is the hash of that
  entry's label set, and the registry holds under it a label set of this payload with
  that hash. The label set found is the one of the producing series entry as long as no
  other label set of the payload has the same hash.
\<close>

theorem batch_references_resolve:
  assumes "textparse_New lib b ''text/plain'' = Inr tp"
    and "x \<in> set (batch_of (ProcessBody lib clock s b))"
  shows "\<exists>n raw ts val.
      n < length (decoded tp) \<and> decoded tp ! n = EntrySeries raw ts val
      \<and> x \<in> set (contribution lib (Cfg s) clock (take n (decoded tp)) (decoded tp ! n))
      \<and> Ref x = Labels_Hash lib (tp_Metric raw)
      \<and> (\<exists>lset. labelsByRef (snd (ProcessBody lib clock s b)) (Ref x) = Some lset
            \<and> GetLabelsByRef (snd (ProcessBody lib clock s b)) (Ref x) = lset
            \<and> lset \<in> set (series_lsets (decoded tp)) \<and> Labels_Hash lib lset = Ref x)
      \<and> (inj_on (Labels_Hash lib) (set (series_lsets (decoded tp))) \<longrightarrow>
            GetLabelsByRef (snd (ProcessBody lib clock s b)) (Ref x) = tp_Metric raw)"
proof -
  let ?es = "decoded tp"
  let ?reg = "labelsByRef (snd (ProcessBody lib clock s b))"
  have reg: "?reg = last_written (Labels_Hash lib) (series_lsets ?es)"
    using assms(1) by (rule registry_of_ProcessBody)
  from assms have "x \<in> set (accepted lib (Cfg s) clock ?es)"
    by (simp add: batch_of_ProcessBody)
  then obtain n raw ts val where n: "n < length ?es" "?es ! n = EntrySeries raw ts val"
      and x: "x \<in> set (contribution lib (Cfg s) clock (take n ?es) (?es ! n))"
      and r: "Ref x = Labels_Hash lib (tp_Metric raw)"
    using accepted_mem by blast
  from n have "EntrySeries raw ts val \<in> set ?es"
    by (metis nth_mem)
  then have mem: "tp_Metric raw \<in> set (series_lsets ?es)"
    by (rule series_lsets_mem)
  then have "Ref x \<in> dom ?reg"
    by (simp add: reg dom_last_written r)
  then obtain lset where l: "?reg (Ref x) = Some lset"
    by blast
  then have l2: "lset \<in> set (series_lsets ?es) \<and> Labels_Hash lib lset = Ref x"
    using last_written_SomeD [of "Labels_Hash lib" "series_lsets ?es" "Ref x" lset]
    by (simp add: reg)
  have "inj_on (Labels_Hash lib) (set (series_lsets ?es)) \<Longrightarrow>
      GetLabelsByRef (snd (ProcessBody lib clock s b)) (Ref x) = tp_Metric raw"
    using mem by (simp add: GetLabelsByRef_Some reg r last_written_inj)
  with n x r l l2 show ?thesis
    using GetLabelsByRef_Some [OF l] by blast
qed

theorem batch_references_resolve_witness:
  "textparse_New ex_lib [1] ''text/plain'' = Inr ex_tp
   \<and> \<lparr>Ref = 31008, T = 1001, V = Finite 5\<rparr> \<in> set (batch_of (ProcessBody ex_lib ex_clock ex_s [1]))
   \<and> inj_on (Labels_Hash ex_lib) (set (series_lsets (decoded ex_tp)))
   \<and> (\<exists>n raw ts val. n < length (decoded ex_tp) \<and> decoded ex_tp ! n = EntrySeries raw ts val
        \<and> 31008 = Labels_Hash ex_lib (tp_Metric raw)
        \<and> GetLabelsByRef (snd (ProcessBody ex_lib ex_clock ex_s [1])) 31008 = tp_Metric raw)
   \<and> GetLabelsByRef (snd (ProcessBody ex_lib ex_clock ex_s [1])) 31008
        = [\<lparr>Name = ''__name__'', Value = ''cpu''\<rparr>,
          \<lparr>Name = ''id'', Value = ''/c1''\<rparr>, \<lparr>Name = ''name'', Value = ''my-app''\<rparr>]"
proof -
  have run: "batch_of (ProcessBody ex_lib ex_clock ex_s [1]) = [\<lparr>Ref = 31008, T = 1001, V = Finite 5\<rparr>]"
    by (simp add: ex_defs run_defs)
  then have mem: "\<lparr>Ref = 31008, T = 1001, V = Finite 5\<rparr>
      \<in> set (batch_of (ProcessBody ex_lib ex_clock ex_s [1]))"
    by simp
  have look: "GetLabelsByRef (snd (ProcessBody ex_lib ex_clock ex_s [1])) 31008
        = [\<lparr>Name = ''__name__'', Value = ''cpu''\<rparr>,
          \<lparr>Name = ''id'', Value = ''/c1''\<rparr>, \<lparr>Name = ''name'', Value = ''my-app''\<rparr>]"
    by (simp add: ex_defs run_defs)
  from batch_references_resolve [OF ex_decoded(1) mem] ex_inj
  have "\<exists>n raw ts val. n < length (decoded ex_tp) \<and> decoded ex_tp ! n = EntrySeries raw ts val
        \<and> 31008 = Labels_Hash ex_lib (tp_Metric raw)
        \<and> GetLabelsByRef (snd (ProcessBody ex_lib ex_clock ex_s [1])) 31008 = tp_Metric raw"
    by simp blast
  with ex_decoded(1) mem ex_inj look show ?thesis by blast
qed




section \<open>The metadata index\<close>

lemma index_writes_snoc:
  "index_writes (es @ [e]) =
     index_writes es @ (case e of EntrySeries raw ts val \<Rightarrow> [tracked_meta es] | _ \<Rightarrow> [])"
  by (simp add: index_writes_def)

lemma index_writes_no_series:
  "(\<forall>e\<in>set es'. \<forall>raw ts val. e \<noteq> EntrySeries raw ts val) \<Longrightarrow>
   index_writes (es @ es') = index_writes es"
proof (induction es' rule: rev_induct)
  case Nil
  show ?case by simp
next
  case (snoc e es')
  then have "index_writes ((es @ es') @ [e]) = index_writes es"
    unfolding index_writes_snoc by (cases e) auto
  then show ?case by simp
qed

lemma index_writes_mem:
  "n < length es \<Longrightarrow> es ! n = EntrySeries raw ts val \<Longrightarrow>
   tracked_meta (take n es) \<in> set (index_writes es)"
  by (force simp: index_writes_def each_with_earlier_def)

lemma index_writes_last_series:
  assumes "n < length es" and "es ! n = EntrySeries raw ts val"
    and "\<forall>k. n < k \<and> k < length es \<longrightarrow> (\<forall>raw' ts' val'. es ! k \<noteq> EntrySeries raw' ts' val')"
  shows "index_writes es = index_writes (take n es) @ [tracked_meta (take n es)]"
proof -
  have es: "es = (take n es @ [es ! n]) @ drop (Suc n) es"
    using assms(1) by (simp add: Cons_nth_drop_Suc)
  have "\<forall>e\<in>set (drop (Suc n) es). \<forall>raw ts val. e \<noteq> EntrySeries raw ts val"
    using assms(3) by (auto simp: in_set_conv_nth)
  then have "index_writes ((take n es @ [es ! n]) @ drop (Suc n) es)
      = index_writes (take n es @ [es ! n])"
    by (rule index_writes_no_series)
  with es have "index_writes es = index_writes (take n es @ [es ! n])"
    by simp
  then show ?thesis
    by (simp add: index_writes_snoc assms(2))
qed

text \<open>
  C10. A decoded series entry is indexed under the metric name of the most recent
  \<^verbatim>\<open>HELP\<close> entry before it, the empty name if there is none, whatever its own labels
  are. The value indexed carries the type of the most recent \<^verbatim>\<open>TYPE\<close> entry, whatever
  metric that entry names: the value stays in the index unless a later series entry
  overwrites it.
\<close>

theorem series_indexed_under_most_recent_help:
  assumes "textparse_New lib b ''text/plain'' = Inr tp"
    and "n < length (decoded tp)"
    and "decoded tp ! n = EntrySeries raw ts val"
  shows "Metric (tracked_meta (take n (decoded tp)))
           = last_or '''' [m. EntryHelp m h \<leftarrow> take n (decoded tp)]
    \<and> Type (tracked_meta (take n (decoded tp)))
           = last_or '''' [ty. EntryType m ty \<leftarrow> take n (decoded tp)]
    \<and> (\<exists>md. metadata_of (ProcessBody lib clock s b) (Metric (tracked_meta (take n (decoded tp))))
               = Some md
             \<and> Metric md = Metric (tracked_meta (take n (decoded tp))))
    \<and> ((\<forall>k. n < k \<and> k < length (decoded tp) \<longrightarrow>
            (\<forall>raw' ts' val'. decoded tp ! k \<noteq> EntrySeries raw' ts' val')) \<longrightarrow>
         metadata_of (ProcessBody lib clock s b) (Metric (tracked_meta (take n (decoded tp))))
           = Some (tracked_meta (take n (decoded tp))))"
proof -
  let ?es = "decoded tp"
  let ?m = "tracked_meta (take n ?es)"
  have ix: "metadata_of (ProcessBody lib clock s b) = last_written Metric (index_writes ?es)"
    using assms(1) by (rule metadata_of_ProcessBody)
  have "?m \<in> set (index_writes ?es)"
    using assms(2,3) by (rule index_writes_mem)
  then have "Metric ?m \<in> dom (last_written Metric (index_writes ?es))"
    by (simp add: dom_last_written)
  then obtain md where md: "last_written Metric (index_writes ?es) (Metric ?m) = Some md"
    by blast
  then have "Metric md = Metric ?m"
    using last_written_SomeD [of Metric "index_writes ?es" "Metric ?m" md] by simp
  with md have a: "\<exists>md. metadata_of (ProcessBody lib clock s b) (Metric ?m) = Some md
      \<and> Metric md = Metric ?m"
    by (simp add: ix)
  have b: "metadata_of (ProcessBody lib clock s b) (Metric ?m) = Some ?m"
    if "\<forall>k. n < k \<and> k < length ?es \<longrightarrow> (\<forall>raw' ts' val'. ?es ! k \<noteq> EntrySeries raw' ts' val')"
  proof -
    have "index_writes ?es = index_writes (take n ?es) @ [?m]"
      using assms(2,3) that by (rule index_writes_last_series)
    then show ?thesis
      by (simp add: ix)
  qed
  from a b show ?thesis
    by (simp add: tracked_meta_def)
qed

lemma ex_meta_decoded:
  "textparse_New ex_lib [4] ''text/plain'' = Inr ex_meta" "decoded ex_meta = map fst ex_meta"
  by (simp_all add: ex_lib_def lib_on_def ex_parse_def decoded_def valid_def ex_meta_def)

theorem series_indexed_under_most_recent_help_witness:
  "textparse_New ex_lib [4] ''text/plain'' = Inr ex_meta
   \<and> 5 < length (decoded ex_meta)
   \<and> decoded ex_meta ! 5 = EntrySeries [\<lparr>Name = ''__name__'', Value = ''b''\<rparr>,
          \<lparr>Name = ''name'', Value = ''cap''\<rparr>] None (Finite 100)
   \<and> drop 6 (decoded ex_meta) = [EntryHelp ''b'' ''Second text.'']
   \<and> metadata_of (ProcessBody ex_lib ex_clock ex_s [4]) ''b''
        = Some \<lparr>Metric = ''b'', Type = ''counter'', Help = ''About b.''\<rparr>
   \<and> metadata_of (ProcessBody ex_lib ex_clock ex_s [4]) ''c'' = None
   \<and> metadata_of (ProcessBody ex_lib ex_clock ex_s [4]) ''''
        = Some \<lparr>Metric = '''', Type = '''', Help = ''''\<rparr>"
proof -
  have len: "length (decoded ex_meta) = 7"
    by (simp add: decoded_def valid_def ex_meta_def)
  have n: "5 < length (decoded ex_meta)"
    by (simp add: len)
  have e: "decoded ex_meta ! 5 = EntrySeries [\<lparr>Name = ''__name__'', Value = ''b''\<rparr>,
          \<lparr>Name = ''name'', Value = ''cap''\<rparr>] None (Finite 100)"
    by (simp add: decoded_def valid_def ex_meta_def)
  have later: "\<forall>k. 5 < k \<and> k < length (decoded ex_meta) \<longrightarrow>
        (\<forall>raw' ts' val'. decoded ex_meta ! k \<noteq> EntrySeries raw' ts' val')"
  proof (intro allI impI)
    fix k raw' ts' val'
    assume "5 < k \<and> k < length (decoded ex_meta)"
    then have "k = 6" by (simp add: len)
    then show "decoded ex_meta ! k \<noteq> EntrySeries raw' ts' val'"
      by (simp add: decoded_def valid_def ex_meta_def)
  qed
  have t: "tracked_meta (take 5 (decoded ex_meta))
      = \<lparr>Metric = ''b'', Type = ''counter'', Help = ''About b.''\<rparr>"
    by (simp add: decoded_def valid_def ex_meta_def tracked_meta_def last_or_def)
  have other: "metadata_of (ProcessBody ex_lib ex_clock ex_s [4]) ''c'' = None"
    "metadata_of (ProcessBody ex_lib ex_clock ex_s [4]) ''''
        = Some \<lparr>Metric = '''', Type = '''', Help = ''''\<rparr>"
    by (simp_all add: ex_defs run_defs)
  from series_indexed_under_most_recent_help [OF ex_meta_decoded(1) n e, of ex_clock ex_s]
    later
  have "metadata_of (ProcessBody ex_lib ex_clock ex_s [4])
          (Metric (tracked_meta (take 5 (decoded ex_meta))))
        = Some (tracked_meta (take 5 (decoded ex_meta)))"
    by blast
  then have "metadata_of (ProcessBody ex_lib ex_clock ex_s [4]) ''b''
        = Some \<lparr>Metric = ''b'', Type = ''counter'', Help = ''About b.''\<rparr>"
    by (simp add: t)
  moreover have "drop 6 (decoded ex_meta) = [EntryHelp ''b'' ''Second text.'']"
    by (simp add: decoded_def valid_def ex_meta_def)
  ultimately show ?thesis
    using ex_meta_decoded(1) n e other by blast
qed




section \<open>Series references\<close>






section \<open>Histogram entries\<close>







lemma histogram_notes_snoc:
  "histogram_notes (es @ [e]) =
     histogram_notes es @
       (case e of
          EntryHistogram \<Rightarrow>
            [Log Warn ''Skipping EntryHistogram (not implemented)'' ''metric''
               (Metric (tracked_meta es))]
        | _ \<Rightarrow> [])"
  by (simp add: histogram_notes_def)



lemma logger_closed:
  "logger (fst (foldl (ProcessBody_entry lib clock) (start s) es)) = logger s @ histogram_notes es"
proof (induction es rule: rev_induct)
  case Nil
  show ?case by (simp add: start_def histogram_notes_def)
next
  case (snoc e es)
  then show ?case
    by (cases e)
      (simp_all add: histogram_notes_snoc ProcessBody_series_def Let_def currMeta_closed)
qed

lemma other_fields_closed:
  "(fst (foldl (ProcessBody_entry lib clock) st es))\<lparr>logger := l, labelsByRef := r\<rparr>
     = (fst st)\<lparr>logger := l, labelsByRef := r\<rparr>"
proof (induction es rule: rev_induct)
  case Nil
  show ?case by simp
next
  case (snoc e es)
  then show ?case
    by (cases e) (simp_all add: ProcessBody_series_def Let_def)
qed

lemma scraper_closed:
  "fst (foldl (ProcessBody_entry lib clock) (start s) es) =
     s\<lparr>logger := logger s @ histogram_notes es,
       labelsByRef := last_written (Labels_Hash lib) (series_lsets es)\<rparr>"
proof -
  let ?s' = "fst (foldl (ProcessBody_entry lib clock) (start s) es)"
  have "?s' = ?s'\<lparr>logger := logger ?s', labelsByRef := labelsByRef ?s'\<rparr>"
    by simp
  also have "\<dots> = (fst (start s))\<lparr>logger := logger ?s', labelsByRef := labelsByRef ?s'\<rparr>"
    by (rule other_fields_closed)
  finally have "?s' = (fst (start s))\<lparr>logger := logger ?s', labelsByRef := labelsByRef ?s'\<rparr>" .
  then have "?s' = (fst (start s))\<lparr>logger := logger s @ histogram_notes es,
      labelsByRef := last_written (Labels_Hash lib) (series_lsets es)\<rparr>"
    by (simp only: logger_closed labelsByRef_closed)
  then show ?thesis
    by (simp add: start_def)
qed





section \<open>The scheduler\<close>

lemma ProcessBody_state:
  "snd (ProcessBody lib clock s b) =
     (case textparse_New lib b ''text/plain'' of
        Inl err \<Rightarrow> s
      | Inr tp \<Rightarrow> s\<lparr>logger := logger s @ histogram_notes (decoded tp),
                      labelsByRef := last_written (Labels_Hash lib) (series_lsets (decoded tp))\<rparr>)"
  by (simp add: ProcessBody_unfold scraper_closed split: sum.splits)

lemma histogram_notes_no_failure: "filter is_failure_note (histogram_notes es) = []"
proof (induction es rule: rev_induct)
  case Nil
  show ?case by (simp add: histogram_notes_def)
next
  case (snoc e es)
  then show ?case
    by (cases e) (simp_all add: histogram_notes_snoc is_failure_note_def)
qed

lemma ProcessBody_exporter: "exporter (snd (ProcessBody lib clock s b)) = exporter s"
  by (simp add: ProcessBody_state split: sum.splits)

lemma ProcessBody_failure_notes:
  "filter is_failure_note (logger (snd (ProcessBody lib clock s b)))
     = filter is_failure_note (logger s)"
  by (simp add: ProcessBody_state histogram_notes_no_failure split: sum.splits)

lemma ProcessBody_fst_error:
  "(\<exists>err. fst (ProcessBody lib clock s b) = Inl err) \<longleftrightarrow> error_of (ProcessBody lib clock s b) \<noteq> None"
  by (simp add: error_of_def split: sum.splits)

lemma scrapeAndExport_fails_iff:
  "fst (scrapeAndExport lib clock s get) \<noteq> None \<longleftrightarrow>
     (\<exists>err. get = Inl err)
     \<or> (\<exists>resp. get = Inr resp
          \<and> (StatusCode resp \<noteq> 200
             \<or> (\<exists>err. Body resp = Inl err)
             \<or> (\<exists>bodyBytes. Body resp = Inr bodyBytes
                  \<and> error_of (ProcessBody lib clock s bodyBytes) \<noteq> None)))"
  by (auto simp: scrapeAndExport_def Let_def error_of_def split: sum.splits prod.splits)

lemma scrapeAndExport_exporter:
  "exporter (snd (scrapeAndExport lib clock s get)) =
     (if fst (scrapeAndExport lib clock s get) = None
      then exporter s @ [(batch_of (ProcessBody lib clock s (projr (Body (projr get)))),
                          metadata_of (ProcessBody lib clock s (projr (Body (projr get)))))]
      else exporter s)"
proof (cases get)
  case (Inl err)
  then show ?thesis by (simp add: scrapeAndExport_def)
next
  case (Inr resp)
  show ?thesis
  proof (cases "Body resp")
    case (Inl err)
    with Inr show ?thesis
      by (simp add: scrapeAndExport_def Let_def split: option.splits)
  next
    case body: (Inr bodyBytes)
    obtain r s' where p: "ProcessBody lib clock s bodyBytes = (r, s')"
      by (cases "ProcessBody lib clock s bodyBytes")
    have e: "exporter s' = exporter s"
      using ProcessBody_exporter [of lib clock s bodyBytes] by (simp add: p)
    from Inr body p e show ?thesis
      by (cases r)
        (auto simp: scrapeAndExport_def Let_def batch_of_def metadata_of_def
          split: option.splits)
  qed
qed

lemma scrapeAndExport_failure_notes:
  "filter is_failure_note (logger (snd (scrapeAndExport lib clock s get)))
     = filter is_failure_note (logger s)"
proof (cases get)
  case (Inl err)
  then show ?thesis by (simp add: scrapeAndExport_def)
next
  case (Inr resp)
  show ?thesis
  proof (cases "Body resp")
    case (Inl err)
    with Inr show ?thesis
      by (simp add: scrapeAndExport_def Let_def is_failure_note_def split: option.splits)
  next
    case body: (Inr bodyBytes)
    obtain r s' where p: "ProcessBody lib clock s bodyBytes = (r, s')"
      by (cases "ProcessBody lib clock s bodyBytes")
    have e: "filter is_failure_note (logger s') = filter is_failure_note (logger s)"
      using ProcessBody_failure_notes [of lib clock s bodyBytes] by (simp add: p)
    from Inr body p e show ?thesis
      by (cases r)
        (auto simp: scrapeAndExport_def Let_def is_failure_note_def split: option.splits)
  qed
qed

lemma Run_tick:
  "Run lib s (ticker_C get clock # evs) =
     Run lib
       (case fst (scrapeAndExport lib clock s get) of
          Some err \<Rightarrow>
            (snd (scrapeAndExport lib clock s get))
              \<lparr>logger := logger (snd (scrapeAndExport lib clock s get)) @
                 [Log Error ''Failed scrape and export iteration'' ''err'' err]\<rparr>
        | None \<Rightarrow> snd (scrapeAndExport lib clock s get)) evs"
  by (simp split: prod.splits option.splits)

lemma Run_state:
  "fst (Run lib s evs) = (if \<exists>reason. ctx_Done reason \<in> set evs then Stopped else Running)"
proof (induction evs arbitrary: s)
  case Nil
  show ?case by simp
next
  case (Cons ev evs)
  show ?case
  proof (cases ev)
    case (ctx_Done reason)
    then show ?thesis by auto
  next
    case (ticker_C get clock)
    then show ?thesis
      unfolding ticker_C Run_tick by (simp add: Cons.IH)
  qed
qed

lemma Run_cycles:
  "length (exporter (snd (Run lib s evs)))
     + length (filter is_failure_note (logger (snd (Run lib s evs))))
   = length (exporter s) + length (filter is_failure_note (logger s))
     + length (ticks_before_cancel evs)"
proof (induction evs arbitrary: s)
  case Nil
  show ?case by (simp add: ticks_before_cancel_def)
next
  case (Cons ev evs)
  show ?case
  proof (cases ev)
    case (ctx_Done reason)
    then show ?thesis
      by (simp add: ticks_before_cancel_def is_failure_note_def)
  next
    case (ticker_C get clock)
    have t: "length (ticks_before_cancel (ev # evs)) = Suc (length (ticks_before_cancel evs))"
      by (simp add: ticker_C ticks_before_cancel_def)
    show ?thesis
    proof (cases "fst (scrapeAndExport lib clock s get)")
      case None
      then show ?thesis
        unfolding ticker_C Run_tick
        using scrapeAndExport_exporter [of lib clock s get]
          scrapeAndExport_failure_notes [of lib clock s get] t
        by (simp add: Cons.IH ticker_C)
    next
      case (Some err)
      have f: "is_failure_note (Log Error ''Failed scrape and export iteration'' ''err'' err)"
        by (simp add: is_failure_note_def)
      from Some show ?thesis
        unfolding ticker_C Run_tick
        using scrapeAndExport_exporter [of lib clock s get]
          scrapeAndExport_failure_notes [of lib clock s get] t
        by (simp add: Cons.IH ticker_C f)
    qed
  qed
qed

text \<open>
  C8. The loop of \<^verbatim>\<open>Run\<close> ends if and only if the cancellation is among the cases its
  \<^verbatim>\<open>select\<close> takes; until then it is running, whatever the cycles return. Every tick
  taken before the cancellation runs one cycle, which either hands one batch to the
  exporter or is logged as failed. A cycle fails exactly on a fetch error, a status other
  than 200, a failure to read the body, or the hard error of the pipeline; a failed cycle
  exports nothing, and the loop goes on to the next case with the failure logged.
\<close>

theorem failed_cycle_does_not_stop_scheduler:
  "fst (Run lib s evs) = (if \<exists>reason. ctx_Done reason \<in> set evs then Stopped else Running)
   \<and> length (exporter (snd (Run lib s evs)))
       + length (filter is_failure_note (logger (snd (Run lib s evs))))
     = length (exporter s) + length (filter is_failure_note (logger s))
       + length (ticks_before_cancel evs)
   \<and> (fst (scrapeAndExport lib clock s get) \<noteq> None \<longleftrightarrow>
        (\<exists>err. get = Inl err)
        \<or> (\<exists>resp. get = Inr resp
             \<and> (StatusCode resp \<noteq> 200
                \<or> (\<exists>err. Body resp = Inl err)
                \<or> (\<exists>bodyBytes. Body resp = Inr bodyBytes
                     \<and> error_of (ProcessBody lib clock s bodyBytes) \<noteq> None))))
   \<and> (\<forall>err. fst (scrapeAndExport lib clock s get) = Some err \<longrightarrow>
         exporter (snd (scrapeAndExport lib clock s get)) = exporter s
         \<and> Run lib s (ticker_C get clock # evs)
             = Run lib
                 ((snd (scrapeAndExport lib clock s get))
                    \<lparr>logger := logger (snd (scrapeAndExport lib clock s get)) @
                       [Log Error ''Failed scrape and export iteration'' ''err'' err]\<rparr>) evs)"
proof -
  have "exporter (snd (scrapeAndExport lib clock s get)) = exporter s
      \<and> Run lib s (ticker_C get clock # evs)
          = Run lib
              ((snd (scrapeAndExport lib clock s get))
                 \<lparr>logger := logger (snd (scrapeAndExport lib clock s get)) @
                    [Log Error ''Failed scrape and export iteration'' ''err'' err]\<rparr>) evs"
    if "fst (scrapeAndExport lib clock s get) = Some err" for err
    using that scrapeAndExport_exporter [of lib clock s get]
    unfolding Run_tick by simp
  then show ?thesis
    using Run_state [of lib s evs] Run_cycles [of lib s evs]
      scrapeAndExport_fails_iff [of lib clock s get]
    by blast
qed

theorem failed_cycle_does_not_stop_scheduler_witness:
  "fst (scrapeAndExport ex_lib ex_clock ex_s (Inl ''connection refused''))
     = Some ''failed to fetch Prometheus metrics from http://localhost:8080/metrics: connection refused''
   \<and> ctx_Done ''context canceled'' \<in> set ex_events
   \<and> length (ticks_before_cancel ex_events) = 5
   \<and> fst (Run ex_lib ex_s ex_events) = Stopped
   \<and> fst (Run ex_lib ex_s (ticks_before_cancel ex_events)) = Running
   \<and> map fst (exporter (snd (Run ex_lib ex_s ex_events)))
       = [[\<lparr>Ref = 31008, T = 1001, V = Finite 5\<rparr>]]
   \<and> length (filter is_failure_note (logger (snd (Run ex_lib ex_s ex_events)))) = 4
   \<and> Run ex_lib ex_s (ticker_C (Inl ''connection refused'') ex_clock # ex_events)
       = Run ex_lib
           (ex_s\<lparr>logger := [Log Error ''Failed scrape and export iteration'' ''err''
              ''failed to fetch Prometheus metrics from http://localhost:8080/metrics: connection refused'']\<rparr>)
           ex_events"
proof -
  have f: "fst (scrapeAndExport ex_lib ex_clock ex_s (Inl ''connection refused''))
     = Some ''failed to fetch Prometheus metrics from http://localhost:8080/metrics: connection refused''"
    "snd (scrapeAndExport ex_lib ex_clock ex_s (Inl ''connection refused'')) = ex_s"
    by (simp_all add: scrapeAndExport_def ex_s_def)
  have l0: "logger ex_s = []" "exporter ex_s = []"
    by (simp_all add: ex_s_def)
  have d: "ctx_Done ''context canceled'' \<in> set ex_events"
    by (simp add: ex_events_def)
  have t: "ticks_before_cancel ex_events = take 5 ex_events"
    "\<not> (\<exists>reason. ctx_Done reason \<in> set (take 5 ex_events))"
    by (simp_all add: ticks_before_cancel_def ex_events_def)
  have n: "length (take 5 ex_events) = 5"
    by (simp add: ex_events_def)
  have ex: "map fst (exporter (snd (Run ex_lib ex_s ex_events)))
       = [[\<lparr>Ref = 31008, T = 1001, V = Finite 5\<rparr>]]"
    by (simp add: ex_events_def scrapeAndExport_def ex_defs run_defs)
  from failed_cycle_does_not_stop_scheduler
    [of ex_lib ex_s ex_events ex_clock "Inl ''connection refused''"] f l0 d t n ex
    failed_cycle_does_not_stop_scheduler
    [of ex_lib ex_s "take 5 ex_events" ex_clock "Inl ''connection refused''"]
  show ?thesis
    by auto
qed

end
